theory Spec2Isabelle
  imports Main "HOL-Library.Word"
begin

section \<open>Errors\<close>

text \<open>
  Go error values as the two source files build and inspect them: the sentinels
  \<open>io.EOF\<close> and \<open>luigi.EOS{}\<close>, \<open>context.DeadlineExceeded\<close>, and the values made by
  \<open>errors.New\<close>, \<open>errors.Errorf\<close> and \<open>errors.Wrap\<close> of github.com/pkg/errors. A Go
  \<open>error\<close> that may be nil is an \<open>error option\<close>, \<open>None\<close> being nil.
\<close>

datatype error =
    EOF
  | EOS
  | DeadlineExceeded
  | New string
  | Errorf string "string list"
  | Wrapped error string

text \<open>\<open>errors.Wrap(err, msg)\<close>: nil stays nil, anything else is annotated.\<close>

definition Wrap :: "error option \<Rightarrow> string \<Rightarrow> error option" where
  "Wrap err msg = (case err of None \<Rightarrow> None | Some e \<Rightarrow> Some (Wrapped e msg))"

text \<open>\<open>errors.Cause(err)\<close>: the innermost error under the annotations.\<close>

fun Cause :: "error \<Rightarrow> error" where
  "Cause (Wrapped e msg) = Cause e"
| "Cause e = e"

text \<open>
  Modelled from the spec: \<open>luigi.IsEOS\<close> of the pipe library, which recognises the
  end-of-stream sentinel ("yielding an end-of-stream sentinel after clean close"); nil is
  not end-of-stream.
\<close>

definition IsEOS :: "error option \<Rightarrow> bool" where
  "IsEOS err = (case err of None \<Rightarrow> False | Some e \<Rightarrow> Cause e = EOS)"

section \<open>Packets\<close>

text \<open>
  Modelled from the spec: \<open>codec.Flag\<close> of the packet codec, "a bitset over JSON, Stream,
  EndErr"; \<open>Set\<close> adds the bits of its argument and \<open>Get\<close> tests that all of them are
  present.
\<close>

datatype flag = FlagJSON | FlagStream | FlagEndErr

type_synonym Flag = "flag set"

definition Flag_Set :: "Flag \<Rightarrow> Flag \<Rightarrow> Flag" where
  "Flag_Set f g = f \<union> g"

definition Flag_Get :: "Flag \<Rightarrow> Flag \<Rightarrow> bool" where
  "Flag_Get f g = (g \<subseteq> f)"

type_synonym int32 = "32 word"

text \<open>\<open>codec.Packet\<close>: flags, the signed 32-bit request id, the body bytes.\<close>

record Packet =
  Flag :: Flag
  Req :: int32
  Body :: string

section \<open>The packet transport (packer.go)\<close>

text \<open>
  \<open>packer.Next\<close>. Its two inputs from outside are what \<open>pkr.r.ReadPacket()\<close> returned
  (an error, or a packet) and whether the \<open>closing\<close> channel was closed when the
  \<open>select\<close> looked at it.
\<close>

definition packer_Next :: "bool \<Rightarrow> error + Packet \<Rightarrow> error + Packet" where
  "packer_Next closing rd =
     (case rd of
        Inl err \<Rightarrow>
          if closing then Inl EOS
          else if Cause err = EOF then Inl EOS
          else Inl (Wrapped err ''ReadPacket failed.'')
      | Inr pkt \<Rightarrow> Inr (pkt\<lparr>Req := - Req pkt\<rparr>))"

text \<open>
  \<open>packer.Pour\<close>. The value poured is an \<open>interface{}\<close>: a \<open>*codec.Packet\<close> (\<open>Inr\<close>)
  or a value of another type, given by the name \<open>%T\<close> prints (\<open>Inl\<close>). \<open>write\<close> is the
  result of \<open>pkr.w.WritePacket\<close>, \<open>closing\<close> as in \<open>packer_Next\<close>.
\<close>

definition packer_Pour ::
  "bool \<Rightarrow> (Packet \<Rightarrow> error option) \<Rightarrow> string + Packet \<Rightarrow> error option" where
  "packer_Pour closing write v =
     (case v of
        Inl tname \<Rightarrow> Some (Errorf ''packer sink expected type *codec.Packet, got %T'' [tname])
      | Inr pkt \<Rightarrow> (let err = write pkt in if closing then None else err))"

section \<open>Requests, streams and the session state (rpc.go)\<close>

text \<open>\<open>CallError\<close>: the error object a peer sends in a termination packet.\<close>

record CallError =
  Name :: string
  Message :: string
  Stack :: string

text \<open>
  Modelled from the spec: the \<open>Stream\<close> object of the repository's stream.go, "built over
  a pipe's consumer handle plus the shared Transport" with "late binding of id and
  declared result type post-construction". \<open>src\<close> names the pipe it reads from; the
  transport is the session's only one and is left out. \<open>NewStream(src, pkr, req, ins,
  outs)\<close> stores its arguments, \<open>WithReq\<close> and \<open>WithType\<close> overwrite the id and the
  result type.
\<close>

record Stream =
  src :: nat
  sreq :: int32
  inStream :: bool
  outStream :: bool
  stipe :: "string option"

definition NewStream :: "nat \<Rightarrow> int32 \<Rightarrow> bool \<Rightarrow> bool \<Rightarrow> Stream" where
  "NewStream s rq ins outs =
     \<lparr>src = s, sreq = rq, inStream = ins, outStream = outs, stipe = None\<rparr>"

definition WithReq :: "int32 \<Rightarrow> Stream \<Rightarrow> Stream" where
  "WithReq rq s = s\<lparr>sreq := rq\<rparr>"

definition WithType :: "string option \<Rightarrow> Stream \<Rightarrow> Stream" where
  "WithType t s = s\<lparr>stipe := t\<rparr>"

text \<open>
  \<open>Request\<close>, with the fields rpc.go reads and writes. \<open>Args\<close> is a slice that may be
  nil (\<open>None\<close>); its elements and \<open>req_tipe\<close> are opaque values, kept as text. \<open>req_in\<close>
  is the field \<open>in\<close>: the producer handle of the request's pipe, named by the pipe's
  number. \<open>req_pkt\<close> is the field \<open>pkt\<close>.
\<close>

record Request =
  Type :: string
  Method :: "string list"
  Args :: "string list option"
  Stream :: Stream
  req_in :: nat
  req_tipe :: "string option"
  req_pkt :: "Packet option"

text \<open>The three exported fields \<open>json.Unmarshal\<close> fills in a zero \<open>Request\<close>.\<close>

record envelope =
  eType :: string
  eMethod :: "string list"
  eArgs :: "string list option"

text \<open>
  Calls that leave rpc.go for a collaborator and come back with an error or nil: the
  transport's \<open>Pour\<close>, the pipe producer's \<open>Close\<close>, \<open>CloseWithError\<close> and \<open>Pour\<close> (with
  the timeout of its context, in nanoseconds), the stream's \<open>Close\<close>, and the handler
  task started with \<open>go\<close>. The session keeps the calls made so far, in order.
\<close>

datatype call =
    PkrPour Packet
  | SinkClose nat
  | SinkCloseWithError nat CallError
  | SinkPour nat nat Packet
  | StreamClose Stream
  | GoHandleCall Request

text \<open>
  What rpc.go takes from outside. \<open>Type_Flags\<close> is \<open>CallType.Flags\<close> of the repository's
  request.go; the three JSON functions are \<open>json.Marshal\<close> of a request and
  \<open>json.Unmarshal\<close> into a \<open>Request\<close> and into a \<open>CallError\<close>; \<open>outcome\<close> is what a
  collaborator's call returns, given the calls made before it.
\<close>

record ext =
  Type_Flags :: "string \<Rightarrow> Flag"
  json_Marshal :: "Request \<Rightarrow> error + string"
  json_Unmarshal_Request :: "string \<Rightarrow> error + envelope"
  json_Unmarshal_CallError :: "string \<Rightarrow> error + CallError"
  outcome :: "call list \<Rightarrow> call \<Rightarrow> error option"

text \<open>
  The \<open>rpc\<close> struct: the request table, the highest id allocated, the termination flag.
  The locks are left out (every operation below runs as one step). Two fields are the
  model's: \<open>npipes\<close> counts the pipes \<open>luigi.NewPipe\<close> has made, so the next pipe's
  number is fresh, and \<open>trace\<close> lists the collaborator calls made so far.
\<close>

record rpc =
  reqs :: "int32 \<rightharpoonup> Request"
  highest :: int32
  terminated :: bool
  npipes :: nat
  trace :: "call list"

definition perform :: "ext \<Rightarrow> call \<Rightarrow> rpc \<Rightarrow> error option \<times> rpc" where
  "perform x c r = (outcome x (trace r) c, r\<lparr>trace := trace r @ [c]\<rparr>)"

definition NewPipe :: "rpc \<Rightarrow> nat \<times> rpc" where
  "NewPipe r = (npipes r, r\<lparr>npipes := Suc (npipes r)\<rparr>)"

text \<open>\<open>time.Millisecond\<close> in nanoseconds, and the two constants of rpc.go.\<close>

definition Millisecond :: nat where
  "Millisecond = 1000000"

definition bufSize :: nat where
  "bufSize = 5"

definition rxTimeout :: nat where
  "rxTimeout = Millisecond"

section \<open>Outbound calls\<close>

text \<open>
  \<open>rpc.Do\<close>. \<open>Do_locked\<close> is the closure of lines 176 to 192, which runs under the
  table lock: it marshals the request, takes the next id, stores it as the highest,
  registers the request and binds id and result type onto its stream; it leaves the
  packet and the marshalling error to \<open>Do\<close>. The table holds a pointer to the request,
  so it sees the request as the closure leaves it.
\<close>

definition Do_locked :: "ext \<Rightarrow> Request \<Rightarrow> rpc \<Rightarrow> (Packet \<times> error option) \<times> rpc" where
  "Do_locked x req r =
     (let flg = Flag_Set (Flag_Set {} {FlagJSON}) (Type_Flags x (Type req));
          m = json_Marshal x req;
          body = (case m of Inl e \<Rightarrow> [] | Inr b \<Rightarrow> b);
          err = (case m of Inl e \<Rightarrow> Some e | Inr b \<Rightarrow> None);
          rq = highest r + 1;
          p = \<lparr>Flag = flg, Req = rq, Body = body\<rparr>;
          req1 = req\<lparr>Stream := WithType (req_tipe req) (WithReq rq (Stream req)),
                     req_pkt := Some p\<rparr>
      in ((p, err), r\<lparr>reqs := (reqs r)(rq \<mapsto> req1), highest := rq\<rparr>))"

definition Do :: "ext \<Rightarrow> Request \<Rightarrow> rpc \<Rightarrow> error option \<times> rpc" where
  "Do x req r =
     (let req1 = (if Args req = None then req\<lparr>Args := Some []\<rparr> else req);
          ((p, err), r1) = Do_locked x req1 r
      in if err \<noteq> None then (err, r1) else perform x (PkrPour p) r1)"

text \<open>
  \<open>rpc.Source\<close>, \<open>rpc.Sink\<close> and \<open>rpc.Duplex\<close>: a fresh pipe, a request whose stream
  reads from it, \<open>Do\<close>, and the stream handed to the caller. The request is a pointer,
  so the stream handed out is the one \<open>Do\<close> has bound the id onto: it is read from the
  table entry \<open>Do\<close> made. They fix what the two direction bits of \<open>NewStream\<close> mean: a
  source call, where the caller reads a stream from the remote, has \<open>inStream\<close>; a sink
  call, where the caller writes one, has \<open>outStream\<close>. (\<open>rpc.Async\<close> goes on to read the
  reply from the stream and is not needed below.)
\<close>

definition Source ::
  "ext \<Rightarrow> string option \<Rightarrow> string list \<Rightarrow> string list option \<Rightarrow> rpc \<Rightarrow> (error + Stream) \<times> rpc" where
  "Source x tp method args r =
     (let (h, r1) = NewPipe r;
          req = \<lparr>Type = ''source'', Method = method, Args = args,
                 Stream = NewStream h 0 True False, req_in = h, req_tipe = tp,
                 req_pkt = None\<rparr>;
          (err, r2) = Do x req r1
      in case err of
           Some e \<Rightarrow> (Inl (Wrapped e ''error sending request''), r2)
         | None \<Rightarrow> (case reqs r2 (highest r2) of
                       Some q \<Rightarrow> (Inr (Stream q), r2)
                     | None \<Rightarrow> (Inr (Stream req), r2)))"

definition Sink ::
  "ext \<Rightarrow> string list \<Rightarrow> string list option \<Rightarrow> rpc \<Rightarrow> (error + Stream) \<times> rpc" where
  "Sink x method args r =
     (let (h, r1) = NewPipe r;
          req = \<lparr>Type = ''sink'', Method = method, Args = args,
                 Stream = NewStream h 0 False True, req_in = h, req_tipe = None,
                 req_pkt = None\<rparr>;
          (err, r2) = Do x req r1
      in case err of
           Some e \<Rightarrow> (Inl (Wrapped e ''error sending request''), r2)
         | None \<Rightarrow> (case reqs r2 (highest r2) of
                       Some q \<Rightarrow> (Inr (Stream q), r2)
                     | None \<Rightarrow> (Inr (Stream req), r2)))"

definition Duplex ::
  "ext \<Rightarrow> string option \<Rightarrow> string list \<Rightarrow> string list option \<Rightarrow> rpc \<Rightarrow> (error + Stream) \<times> rpc" where
  "Duplex x tp method args r =
     (let (h, r1) = NewPipe r;
          req = \<lparr>Type = ''duplex'', Method = method, Args = args,
                 Stream = NewStream h 0 True True, req_in = h, req_tipe = tp,
                 req_pkt = None\<rparr>;
          (err, r2) = Do x req r1
      in case err of
           Some e \<Rightarrow> (Inl (Wrapped e ''error sending request''), r2)
         | None \<Rightarrow> (case reqs r2 (highest r2) of
                       Some q \<Rightarrow> (Inr (Stream q), r2)
                     | None \<Rightarrow> (Inr (Stream req), r2)))"

section \<open>Inbound packets\<close>

text \<open>
  \<open>rpc.ParseRequest\<close>. The pipe is made after the envelope decoded and before the type is
  looked at, so the rejection of an unhandled type leaves a pipe behind.
\<close>

definition ParseRequest :: "ext \<Rightarrow> Packet \<Rightarrow> rpc \<Rightarrow> (error + Request) \<times> rpc" where
  "ParseRequest x p r =
     (if \<not> Flag_Get (Flag p) {FlagJSON} then (Inl (New ''expected JSON flag''), r)
      else if 0 \<le> sint (Req p) then (Inl (New ''expected negative request id''), r)
      else case json_Unmarshal_Request x (Body p) of
             Inl err \<Rightarrow> (Inl (Wrapped err ''error decoding packet''), r)
           | Inr env \<Rightarrow>
               (let (h, r1) = NewPipe r;
                    dirs =
                      (if Flag_Get (Flag p) {FlagStream} then
                         (if eType env = ''duplex'' then Inr (True, True)
                          else if eType env = ''source'' then Inr (False, True)
                          else if eType env = ''sink'' then Inr (True, False)
                          else Inl (Errorf ''unhandled request type: %q'' [eType env]))
                       else Inr (False, False))
                in case dirs of
                     Inl e \<Rightarrow> (Inl e, r1)
                   | Inr (ins, outs) \<Rightarrow>
                       (Inr \<lparr>Type = eType env, Method = eMethod env, Args = eArgs env,
                             Stream = NewStream h (Req p) ins outs, req_in = h,
                             req_tipe = None, req_pkt = Some p\<rparr>, r1)))"

definition isTrue :: "string \<Rightarrow> bool" where
  "isTrue data =
     (length data = 4 \<and> data ! 0 = CHR ''t'' \<and> data ! 1 = CHR ''r''
      \<and> data ! 2 = CHR ''u'' \<and> data ! 3 = CHR ''e'')"

definition parseError :: "ext \<Rightarrow> string \<Rightarrow> error + CallError" where
  \<open>parseError x data =
     (case json_Unmarshal_CallError x data of
        Inl err \<Rightarrow> Inl (Wrapped err ''error unmarshaling error packet'')
      | Inr e \<Rightarrow>
          if Name e \<noteq> ''Error'' then Inl (New ''name is not "Error"'') else Inr e)\<close>

text \<open>
  \<open>rpc.fetchRequest\<close>: the registered request, or a new one parsed from the packet,
  registered and handed to a handler task; the flag says which.
\<close>

definition fetchRequest ::
  "ext \<Rightarrow> Packet \<Rightarrow> rpc \<Rightarrow> (error + Request \<times> bool) \<times> rpc" where
  "fetchRequest x p r =
     (case reqs r (Req p) of
        Some req \<Rightarrow> (Inr (req, False), r)
      | None \<Rightarrow>
          (case ParseRequest x p r of
             (Inl err, r1) \<Rightarrow> (Inl (Wrapped err ''error parsing request''), r1)
           | (Inr req, r1) \<Rightarrow>
               (Inr (req, True),
                r1\<lparr>reqs := (reqs r1)(Req p \<mapsto> req), trace := trace r1 @ [GoHandleCall req]\<rparr>)))"

text \<open>
  The closure of lines 309 to 337 of \<open>Serve\<close>: the termination of a registered request.
\<close>

definition Serve_endErr :: "ext \<Rightarrow> Request \<Rightarrow> Packet \<Rightarrow> rpc \<Rightarrow> error option \<times> rpc" where
  "Serve_endErr x req p r =
     (if isTrue (Body p) then
        (case perform x (SinkClose (req_in req)) r of
           (Some e, r1) \<Rightarrow> (Some (Wrapped e ''error closing pipe sink''), r1)
         | (None, r1) \<Rightarrow>
             (case perform x (StreamClose (Stream req)) r1 of
                (Some e, r2) \<Rightarrow> (Some (Wrapped e ''error closing stream''), r2)
              | (None, r2) \<Rightarrow> (None, r2\<lparr>reqs := (reqs r2)(Req p := None)\<rparr>)))
      else
        (case parseError x (Body p) of
           Inl e \<Rightarrow> (Some (Wrapped e ''error parsing error packet''), r)
         | Inr ce \<Rightarrow>
             (case perform x (SinkCloseWithError (req_in req) ce) r of
                (Some e, r1) \<Rightarrow> (Some (Wrapped e ''error closing pipe sink with error''), r1)
              | (None, r1) \<Rightarrow> (None, r1\<lparr>reqs := (reqs r1)(Req p := None)\<rparr>))))"

text \<open>
  One turn of the loop of \<open>rpc.Serve\<close>, on what \<open>r.pkr.Next\<close> returned: the loop goes on
  to the next read (\<open>Continue\<close>) or \<open>Serve\<close> returns (\<open>Return\<close>, with its error or nil).
\<close>

datatype step = Continue | Return "error option"

definition Serve_step :: "ext \<Rightarrow> error + Packet \<Rightarrow> rpc \<Rightarrow> step \<times> rpc" where
  "Serve_step x rd r =
     (case rd of
        Inl err \<Rightarrow>
          if IsEOS (Some err) then (Return None, r)
          else if terminated r then (Return None, r)
          else (Return (Wrap (Some err) ''error reading from packer source''), r)
      | Inr p \<Rightarrow>
          (case (if Flag_Get (Flag p) {FlagEndErr} then reqs r (Req p) else None) of
             Some req \<Rightarrow>
               (case Serve_endErr x req p r of
                  (Some e, r1) \<Rightarrow> (Return (Some e), r1)
                | (None, r1) \<Rightarrow> (Continue, r1))
           | None \<Rightarrow>
               (case fetchRequest x p r of
                  (Inl e, r1) \<Rightarrow> (Return (Some (Wrapped e ''error getting request'')), r1)
                | (Inr (req, isNew), r1) \<Rightarrow>
                    if isNew then (Continue, r1)
                    else
                      (case perform x (SinkPour (req_in req) rxTimeout p) r1 of
                         (err, r2) \<Rightarrow>
                           (case Wrap err ''error pouring data to handler'' of
                              Some e \<Rightarrow> (Return (Some e), r2)
                            | None \<Rightarrow> (Continue, r2))))))"

text \<open>
  \<open>rpc.Serve\<close> on the reads the transport delivers, in order. The loop has no exit but
  \<open>return\<close>: when the reads given are used up it is still running, blocked in the next
  read (\<open>Running\<close>).
\<close>

datatype served = Running | Returned "error option"

fun Serve :: "ext \<Rightarrow> (error + Packet) list \<Rightarrow> rpc \<Rightarrow> served \<times> rpc" where
  "Serve x [] r = (Running, r)"
| "Serve x (rd # rds) r =
     (case Serve_step x rd r of
        (Return e, r1) \<Rightarrow> (Returned e, r1)
      | (Continue, r1) \<Rightarrow> Serve x rds r1)"

text \<open>
  A session's life as a sequence of events: outbound calls through \<open>Do\<close> and reads of the
  dispatch loop, which handles them while it has not returned. \<open>run\<close> gives the ids the
  \<open>Do\<close> calls allocated, in order (\<open>Do\<close> stores each as \<open>highest\<close>), and the final state.
\<close>

datatype event = CallDo Request | Inbound "error + Packet"

fun run :: "ext \<Rightarrow> event list \<Rightarrow> bool \<Rightarrow> rpc \<Rightarrow> int32 list \<times> rpc" where
  "run x [] serving r = ([], r)"
| "run x (CallDo req # evs) serving r =
     (let r1 = snd (Do x req r); (ids, r2) = run x evs serving r1
      in (highest r1 # ids, r2))"
| "run x (Inbound rd # evs) serving r =
     (if serving then
        (case Serve_step x rd r of
           (Continue, r1) \<Rightarrow> run x evs True r1
         | (Return e, r1) \<Rightarrow> run x evs False r1)
      else run x evs False r)"

fun count_Do :: "event list \<Rightarrow> nat" where
  "count_Do [] = 0"
| "count_Do (CallDo req # evs) = Suc (count_Do evs)"
| "count_Do (Inbound rd # evs) = count_Do evs"

section \<open>A sample session\<close>

text \<open>
  Concrete inputs on which the definitions are evaluated below. In \<open>env0\<close> every
  collaborator call succeeds, the JSON functions know the bodies defined here and reject
  everything else, and a request type gets the stream flag "unless async", as the spec
  has it. The other environments differ from it in one place: the transport's \<open>Pour\<close>
  fails, marshalling fails, closing a stream fails, or a pipe nobody reads from takes
  \<open>bufSize\<close> packets and lets the next \<open>Pour\<close> run into its deadline. \<open>rpc0\<close> is a
  fresh session, \<open>rpc1\<close> the session after one source call, \<open>req1\<close> that call's
  request as the table holds it.
\<close>

definition body_source :: string where
  \<open>body_source = ''{"type":"source","name":["blobs","get"],"args":[]}''\<close>

definition body_duplex :: string where
  \<open>body_duplex = ''{"type":"duplex","name":["gossip","ping"],"args":[]}''\<close>

definition body_async :: string where
  \<open>body_async = ''{"type":"async","name":["whoami"],"args":[]}''\<close>

definition body_error :: string where
  \<open>body_error = ''{"name":"Error","message":"boom","stack":""}''\<close>

definition body_type_error :: string where
  \<open>body_type_error = ''{"name":"TypeError","message":"boom","stack":""}''\<close>

definition env0 :: ext where
  "env0 =
     \<lparr>Type_Flags = (\<lambda>t. if t = ''async'' then {} else {FlagStream}),
      json_Marshal =
        (\<lambda>req. if Type req = ''source'' then Inr body_source
               else if Type req = ''duplex'' then Inr body_duplex
               else Inl (New ''json: unsupported value'')),
      json_Unmarshal_Request =
        (\<lambda>b. if b = body_source then
               Inr \<lparr>eType = ''source'', eMethod = [''blobs'', ''get''], eArgs = Some []\<rparr>
             else if b = body_duplex then
               Inr \<lparr>eType = ''duplex'', eMethod = [''gossip'', ''ping''], eArgs = Some []\<rparr>
             else if b = body_async then
               Inr \<lparr>eType = ''async'', eMethod = [''whoami''], eArgs = Some []\<rparr>
             else Inl (New ''json: cannot unmarshal'')),
      json_Unmarshal_CallError =
        (\<lambda>b. if b = body_error then
               Inr \<lparr>Name = ''Error'', Message = ''boom'', Stack = []\<rparr>
             else if b = body_type_error then
               Inr \<lparr>Name = ''TypeError'', Message = ''boom'', Stack = []\<rparr>
             else Inl (New ''json: cannot unmarshal'')),
      outcome = (\<lambda>tr c. None)\<rparr>"

definition env_send_fails :: ext where
  "env_send_fails =
     env0\<lparr>outcome := (\<lambda>tr c. case c of PkrPour p \<Rightarrow> Some (New ''broken pipe'') | _ \<Rightarrow> None)\<rparr>"

definition env_marshal_fails :: ext where
  "env_marshal_fails = env0\<lparr>json_Marshal := (\<lambda>req. Inl (New ''json: unsupported type''))\<rparr>"

definition env_close_fails :: ext where
  "env_close_fails =
     env0\<lparr>outcome := (\<lambda>tr c. case c of StreamClose s \<Rightarrow> Some (New ''broken pipe'') | _ \<Rightarrow> None)\<rparr>"

fun poured :: "nat \<Rightarrow> call \<Rightarrow> bool" where
  "poured h (SinkPour h' t p) = (h' = h)"
| "poured h c = False"

definition env_stalled :: ext where
  "env_stalled =
     env0\<lparr>outcome :=
            (\<lambda>tr c. case c of
                      SinkPour h t p \<Rightarrow>
                        if bufSize \<le> length (filter (poured h) tr) then Some DeadlineExceeded
                        else None
                    | _ \<Rightarrow> None)\<rparr>"

definition rpc0 :: rpc where
  "rpc0 = \<lparr>reqs = Map.empty, highest = 0, terminated = False, npipes = 0, trace = []\<rparr>"

definition req0 :: Request where
  "req0 =
     \<lparr>Type = ''source'', Method = [''blobs'', ''get''], Args = None,
      Stream = NewStream 0 0 True False, req_in = 0, req_tipe = None, req_pkt = None\<rparr>"

definition pkt1 :: Packet where
  "pkt1 = \<lparr>Flag = {FlagJSON, FlagStream}, Req = 1, Body = body_source\<rparr>"

definition req1 :: Request where
  "req1 =
     \<lparr>Type = ''source'', Method = [''blobs'', ''get''], Args = Some [],
      Stream = \<lparr>src = 0, sreq = 1, inStream = True, outStream = False, stipe = None\<rparr>,
      req_in = 0, req_tipe = None, req_pkt = Some pkt1\<rparr>"

definition rpc1 :: rpc where
  "rpc1 = snd (Do env0 req0 rpc0)"

definition pkt_data :: Packet where
  "pkt_data = \<lparr>Flag = {FlagJSON, FlagStream}, Req = 1, Body = ''42''\<rparr>"

definition pkt_end :: Packet where
  "pkt_end = \<lparr>Flag = {FlagJSON, FlagEndErr}, Req = 1, Body = ''true''\<rparr>"

definition pkt_end_error :: Packet where
  "pkt_end_error = \<lparr>Flag = {FlagJSON, FlagEndErr}, Req = 1, Body = body_error\<rparr>"

definition rpc_full :: rpc where
  "rpc_full =
     snd (Serve env_stalled
            [Inr pkt_data, Inr pkt_data, Inr pkt_data, Inr pkt_data, Inr pkt_data] rpc1)"

section \<open>Facts used below\<close>

lemma isTrue_iff: "isTrue data \<longleftrightarrow> data = ''true''"
  unfolding isTrue_def
  by (cases data; cases "tl data"; cases "tl (tl data)"; cases "tl (tl (tl data))";
      cases "tl (tl (tl (tl data)))") auto

text \<open>Adding a count to an \<open>int32\<close> that stays below \<open>2^31\<close> does not wrap.\<close>

lemma sint_add_nat:
  fixes w :: int32
  assumes "sint w + int k < 2 ^ 31"
  shows "sint (w + of_nat k) = sint w + int k"
proof -
  have lo: "- (2 ^ 31) \<le> sint w"
    using sint_ge [of w] by simp
  have "w + of_nat k = word_of_int (sint w + int k)"
    by simp
  then have "sint (w + of_nat k) = signed_take_bit 31 (sint w + int k)"
    by (simp only: signed_of_int) simp
  also have "\<dots> = sint w + int k"
    using lo assms by (intro signed_take_bit_int_eq_self) auto
  finally show ?thesis .
qed

text \<open>Only \<open>Do\<close> moves the counter; the dispatch loop never does.\<close>

lemma highest_Do: "highest (snd (Do x req r)) = highest r + 1"
  by (simp add: Do_def Do_locked_def perform_def Let_def split: prod.splits)

lemma highest_fetchRequest: "highest (snd (fetchRequest x p r)) = highest r"
  by (auto simp: fetchRequest_def ParseRequest_def NewPipe_def Let_def
        split: option.splits sum.splits prod.splits if_splits)

lemma highest_Serve_endErr: "highest (snd (Serve_endErr x req p r)) = highest r"
  by (auto simp: Serve_endErr_def perform_def split: option.splits sum.splits prod.splits)

lemma highest_Serve_step: "highest (snd (Serve_step x rd r)) = highest r"
proof (cases rd)
  case (Inl err)
  then show ?thesis by (simp add: Serve_step_def)
next
  case (Inr p)
  show ?thesis
  proof (cases "if Flag_Get (Flag p) {FlagEndErr} then reqs r (Req p) else None")
    case (Some req)
    with Inr highest_Serve_endErr [of x req p r] show ?thesis
      by (auto simp: Serve_step_def split: prod.splits option.splits)
  next
    case None
    with Inr highest_fetchRequest [of x p r] show ?thesis
      by (auto simp: Serve_step_def perform_def split: prod.splits option.splits sum.splits)
  qed
qed

lemma run_ids:
  "fst (run x evs s r) = map (\<lambda>k. highest r + 1 + of_nat k) [0..<count_Do evs]"
proof (induction evs arbitrary: s r)
  case Nil
  then show ?case by simp
next
  case (Cons ev evs)
  show ?case
  proof (cases ev)
    case (CallDo req)
    then show ?thesis
      using Cons.IH [of s "snd (Do x req r)"]
      by (simp add: split_beta Let_def highest_Do map_upt_Suc add.assoc del: upt_Suc)
  next
    case (Inbound rd)
    then show ?thesis
      using Cons.IH [of True "snd (Serve_step x rd r)"]
            Cons.IH [of False "snd (Serve_step x rd r)"]
            Cons.IH [of False r] highest_Serve_step [of x rd r]
      by (auto split: prod.splits step.splits)
  qed
qed

lemma ids_strictly_increasing:
  fixes h :: int32
  assumes "sint h + int n < 2 ^ 31"
  shows "sorted_wrt (\<lambda>a b. sint a < sint b) (map (\<lambda>k. h + 1 + of_nat k) [0..<n])"
proof -
  have *: "sint (h + 1 + of_nat k) = sint h + int (Suc k)" if "k < n" for k
  proof -
    have "h + 1 + of_nat k = h + of_nat (Suc k)"
      by simp
    moreover have "sint h + int (Suc k) < 2 ^ 31"
      using that assms by simp
    ultimately show ?thesis
      using sint_add_nat [of h "Suc k"] by metis
  qed
  show ?thesis
    by (simp add: sorted_wrt_map sorted_wrt_iff_nth_less *)
qed

lemma increasing_distinct:
  fixes ids :: "int32 list"
  assumes "sorted_wrt (\<lambda>a b. sint a < sint b) ids"
  shows "distinct ids"
  using assms by (induction ids) auto

text \<open>
  The direction bits as the outbound calls set them: the stream a source call returns has
  \<open>inStream\<close> only, the stream a sink call returns has \<open>outStream\<close> only.
\<close>

lemma Source_stream_directions:
  "fst (Source x tp method args r) = Inr s \<Longrightarrow> inStream s \<and> \<not> outStream s"
  by (auto simp: Source_def Do_def Do_locked_def perform_def NewPipe_def NewStream_def
        WithReq_def WithType_def Let_def split: sum.splits if_splits prod.splits option.splits)

lemma Sink_stream_directions:
  "fst (Sink x method args r) = Inr s \<Longrightarrow> \<not> inStream s \<and> outStream s"
  by (auto simp: Sink_def Do_def Do_locked_def perform_def NewPipe_def NewStream_def
        WithReq_def WithType_def Let_def split: sum.splits if_splits prod.splits option.splits)

text \<open>The sample session after its source call, and after five undelivered packets.\<close>

lemma rpc1_eq:
  "rpc1 = \<lparr>reqs = [1 \<mapsto> req1], highest = 1, terminated = False, npipes = 0,
           trace = [PkrPour pkt1]\<rparr>"
  by (simp add: rpc1_def Do_def Do_locked_def perform_def env0_def rpc0_def req0_def req1_def
        pkt1_def NewStream_def WithReq_def WithType_def Flag_Set_def Let_def insert_commute)

lemma rpc_full_eq:
  "rpc_full =
     rpc1\<lparr>trace := [PkrPour pkt1, SinkPour 0 rxTimeout pkt_data, SinkPour 0 rxTimeout pkt_data,
                       SinkPour 0 rxTimeout pkt_data, SinkPour 0 rxTimeout pkt_data,
                       SinkPour 0 rxTimeout pkt_data]\<rparr>"
  by (simp add: rpc_full_def rpc1_eq Serve_step_def fetchRequest_def perform_def Wrap_def
        env_stalled_def env0_def pkt_data_def Flag_Get_def req1_def bufSize_def)

section \<open>Properties of the transport\<close>

text \<open>
  C5. \<open>Next\<close> turns a physical end-of-file into the end-of-stream sentinel; another
  read error is returned as an error (annotated) while no close was requested and becomes
  the end-of-stream sentinel once one was; \<open>Pour\<close> of a packet reports success whenever a
  close is in flight, whatever the write returned, and the write's own result otherwise.
\<close>

theorem packer_close_suppresses_errors:
  "(Cause err = EOF \<longrightarrow> packer_Next closing (Inl err) = Inl EOS)
   \<and> (Cause err \<noteq> EOF \<and> \<not> closing \<longrightarrow>
        packer_Next closing (Inl err) = Inl (Wrapped err ''ReadPacket failed.''))
   \<and> (closing \<longrightarrow> packer_Next closing (Inl err) = Inl EOS)
   \<and> (closing \<longrightarrow> packer_Pour closing write (Inr pkt) = None)
   \<and> (\<not> closing \<longrightarrow> packer_Pour closing write (Inr pkt) = write pkt)"
  by (simp add: packer_Next_def packer_Pour_def)

theorem packer_close_suppresses_errors_witness:
  "packer_Next False (Inl (Wrapped EOF ''read'')) = Inl EOS
   \<and> packer_Next False (Inl (New ''connection reset'')) =
       Inl (Wrapped (New ''connection reset'') ''ReadPacket failed.'')
   \<and> packer_Next True (Inl (New ''connection reset'')) = Inl EOS
   \<and> packer_Pour True (\<lambda>p. Some (New ''broken pipe'')) (Inr pkt_data) = None
   \<and> packer_Pour False (\<lambda>p. Some (New ''broken pipe'')) (Inr pkt_data) =
       Some (New ''broken pipe'')"
  using packer_close_suppresses_errors
          [of "Wrapped EOF ''read''" False "\<lambda>p. Some (New ''broken pipe'')" pkt_data]
        packer_close_suppresses_errors
          [of "New ''connection reset''" False "\<lambda>p. Some (New ''broken pipe'')" pkt_data]
        packer_close_suppresses_errors
          [of "New ''connection reset''" True "\<lambda>p. Some (New ''broken pipe'')" pkt_data]
  by simp

text \<open>
  C6. A packet that \<open>Next\<close> reads successfully comes back with its request id negated
  (Go's \<open>-\<close> on \<open>int32\<close>) and with nothing else changed, whether or not a close is in
  flight.
\<close>

theorem packer_Next_negates_id:
  "packer_Next closing (Inr pkt) = Inr (pkt\<lparr>Req := - Req pkt\<rparr>)
   \<and> (\<exists>p. packer_Next closing (Inr pkt) = Inr p
          \<and> Req p = - Req pkt \<and> Flag p = Flag pkt \<and> Body p = Body pkt)"
  by (simp add: packer_Next_def)

theorem packer_Next_negates_id_witness:
  "packer_Next False (Inr pkt_data) = Inr \<lparr>Flag = {FlagJSON, FlagStream}, Req = - 1, Body = ''42''\<rparr>"
  using packer_Next_negates_id [of False pkt_data]
  by (simp add: pkt_data_def)

text \<open>
  The negation is the machine's: it flips the sign of every id but \<open>- 2^31\<close>, which it
  leaves as it is.
\<close>

lemma sint_minus:
  fixes w :: int32
  assumes "w \<noteq> - (2 ^ 31)"
  shows "sint (- w) = - sint w"
proof -
  have "sint w \<noteq> - (2 ^ 31)"
  proof
    assume "sint w = - (2 ^ 31)"
    then have "word_of_int (sint w) = (word_of_int (- (2 ^ 31)) :: int32)"
      by simp
    with assms show False
      by simp
  qed
  moreover have "- (2 ^ 31) \<le> sint w" "sint w < 2 ^ 31"
    using sint_ge [of w] sint_lt [of w] by simp_all
  ultimately have "- (2 ^ 31) \<le> - sint w" "- sint w < 2 ^ 31"
    by simp_all
  then have "signed_take_bit 31 (- sint w) = - sint w"
    by (intro signed_take_bit_int_eq_self) auto
  then show ?thesis
    by (simp add: sint_word_ariths)
qed

lemma packer_Next_sint:
  "packer_Next closing (Inr pkt) = Inr p \<Longrightarrow> Req pkt \<noteq> - (2 ^ 31) \<Longrightarrow>
     sint (Req p) = - sint (Req pkt)"
  by (auto simp: packer_Next_def sint_minus)

lemma packer_Next_min_id:
  "packer_Next closing (Inr (pkt\<lparr>Req := - (2 ^ 31)\<rparr>)) = Inr (pkt\<lparr>Req := - (2 ^ 31)\<rparr>)"
  by (simp add: packer_Next_def)

section \<open>Properties of error parsing and request parsing\<close>

text \<open>
  C9. \<open>parseError\<close> yields a \<open>CallError\<close> only for bytes that decode and whose decoded
  \<open>name\<close> is exactly \<open>Error\<close>, and then it is the decoded value; a decoded object with
  any other name is rejected with an error, and so are bytes that do not decode.
\<close>

theorem parseError_only_Error:
  \<open>(parseError x data = Inr e \<longrightarrow>
      json_Unmarshal_CallError x data = Inr e \<and> Name e = ''Error'')
   \<and> (json_Unmarshal_CallError x data = Inr d \<and> Name d \<noteq> ''Error'' \<longrightarrow>
        parseError x data = Inl (New ''name is not "Error"''))
   \<and> (json_Unmarshal_CallError x data = Inr d \<and> Name d = ''Error'' \<longrightarrow>
        parseError x data = Inr d)
   \<and> (json_Unmarshal_CallError x data = Inl err \<longrightarrow>
        parseError x data = Inl (Wrapped err ''error unmarshaling error packet''))\<close>
  by (auto simp: parseError_def split: sum.splits if_splits)

theorem parseError_only_Error_witness:
  \<open>parseError env0 body_error = Inr \<lparr>Name = ''Error'', Message = ''boom'', Stack = []\<rparr>
   \<and> parseError env0 body_type_error = Inl (New ''name is not "Error"'')
   \<and> parseError env0 ''true'' =
       Inl (Wrapped (New ''json: cannot unmarshal'') ''error unmarshaling error packet'')\<close>
  using parseError_only_Error
          [of env0 body_error "\<lparr>Name = ''Error'', Message = ''boom'', Stack = []\<rparr>"
              "\<lparr>Name = ''Error'', Message = ''boom'', Stack = []\<rparr>" EOF]
        parseError_only_Error
          [of env0 body_type_error "\<lparr>Name = ''Error'', Message = ''boom'', Stack = []\<rparr>"
              "\<lparr>Name = ''TypeError'', Message = ''boom'', Stack = []\<rparr>" EOF]
        parseError_only_Error
          [of env0 "''true''" "\<lparr>Name = ''Error'', Message = ''boom'', Stack = []\<rparr>"
              "\<lparr>Name = ''Error'', Message = ''boom'', Stack = []\<rparr>"
              "New ''json: cannot unmarshal''"]
  by (simp add: env0_def body_error_def body_type_error_def)

text \<open>
  C4, as the claim states it, fails twice. A source request parsed from a packet with the
  Stream flag gets \<open>outStream\<close> and not \<open>inStream\<close>: the parsing peer serves the call, so
  it is the local side that streams to the remote (for a sink request it is the reverse).
  And a duplex request parsed from a packet without the Stream flag streams in neither
  direction.
\<close>

theorem ParseRequest_directions_counterexample:
  "fst (ParseRequest env0 \<lparr>Flag = {FlagJSON, FlagStream}, Req = - 1, Body = body_source\<rparr> rpc0) =
     Inr \<lparr>Type = ''source'', Method = [''blobs'', ''get''], Args = Some [],
          Stream = \<lparr>src = 0, sreq = - 1, inStream = False, outStream = True, stipe = None\<rparr>,
          req_in = 0, req_tipe = None,
          req_pkt = Some \<lparr>Flag = {FlagJSON, FlagStream}, Req = - 1, Body = body_source\<rparr>\<rparr>
   \<and> fst (ParseRequest env0 \<lparr>Flag = {FlagJSON}, Req = - 1, Body = body_duplex\<rparr> rpc0) =
     Inr \<lparr>Type = ''duplex'', Method = [''gossip'', ''ping''], Args = Some [],
          Stream = \<lparr>src = 0, sreq = - 1, inStream = False, outStream = False, stipe = None\<rparr>,
          req_in = 0, req_tipe = None,
          req_pkt = Some \<lparr>Flag = {FlagJSON}, Req = - 1, Body = body_duplex\<rparr>\<rparr>"
  by (simp add: ParseRequest_def env0_def rpc0_def Flag_Get_def NewPipe_def NewStream_def
        body_source_def body_duplex_def)

text \<open>
  C4, amended. \<open>ParseRequest\<close> rejects a packet without the JSON flag or with an id that
  is not negative. When it succeeds, the flag was set, the id negative, the envelope
  decoded, the stream is bound to the packet's id, and the directions are: without the
  Stream flag neither, whatever the type; with it, duplex both, source local to remote
  only (\<open>outStream\<close>), sink remote to local only (\<open>inStream\<close>). With the Stream flag any
  other type, async included, is rejected.
\<close>

theorem ParseRequest_directions:
  "(\<not> Flag_Get (Flag p) {FlagJSON} \<or> 0 \<le> sint (Req p) \<longrightarrow>
      (\<exists>e. ParseRequest x p r = (Inl e, r)))
   \<and> (fst (ParseRequest x p r) = Inr q \<longrightarrow>
        Flag_Get (Flag p) {FlagJSON} \<and> sint (Req p) < 0
        \<and> json_Unmarshal_Request x (Body p) =
            Inr \<lparr>eType = Type q, eMethod = Method q, eArgs = Args q\<rparr>
        \<and> sreq (Stream q) = Req p
        \<and> (if Flag_Get (Flag p) {FlagStream} then
             (Type q = ''duplex'' \<and> inStream (Stream q) \<and> outStream (Stream q))
             \<or> (Type q = ''source'' \<and> \<not> inStream (Stream q) \<and> outStream (Stream q))
             \<or> (Type q = ''sink'' \<and> inStream (Stream q) \<and> \<not> outStream (Stream q))
           else \<not> inStream (Stream q) \<and> \<not> outStream (Stream q)))
   \<and> (Flag_Get (Flag p) {FlagJSON} \<and> sint (Req p) < 0
        \<and> json_Unmarshal_Request x (Body p) = Inr env
        \<and> Flag_Get (Flag p) {FlagStream}
        \<and> eType env \<noteq> ''duplex'' \<and> eType env \<noteq> ''source'' \<and> eType env \<noteq> ''sink'' \<longrightarrow>
        fst (ParseRequest x p r) = Inl (Errorf ''unhandled request type: %q'' [eType env]))"
  by (auto simp: ParseRequest_def NewPipe_def NewStream_def Let_def
           split: sum.splits if_splits prod.splits)

theorem ParseRequest_directions_witness:
  "(\<exists>e. ParseRequest env0 \<lparr>Flag = {FlagStream}, Req = - 2, Body = body_duplex\<rparr> rpc0 =
          (Inl e, rpc0))
   \<and> (\<exists>e. ParseRequest env0 \<lparr>Flag = {FlagJSON, FlagStream}, Req = 2, Body = body_duplex\<rparr> rpc0 =
          (Inl e, rpc0))
   \<and> fst (ParseRequest env0 \<lparr>Flag = {FlagJSON, FlagStream}, Req = - 2, Body = body_duplex\<rparr> rpc0) =
       Inr \<lparr>Type = ''duplex'', Method = [''gossip'', ''ping''], Args = Some [],
            Stream = \<lparr>src = 0, sreq = - 2, inStream = True, outStream = True, stipe = None\<rparr>,
            req_in = 0, req_tipe = None,
            req_pkt = Some \<lparr>Flag = {FlagJSON, FlagStream}, Req = - 2, Body = body_duplex\<rparr>\<rparr>
   \<and> json_Unmarshal_Request env0 body_duplex =
       Inr \<lparr>eType = ''duplex'', eMethod = [''gossip'', ''ping''], eArgs = Some []\<rparr>
   \<and> fst (ParseRequest env0 \<lparr>Flag = {FlagJSON, FlagStream}, Req = - 2, Body = body_async\<rparr> rpc0) =
       Inl (Errorf ''unhandled request type: %q'' [''async''])"
proof -
  let ?q = "\<lparr>Type = ''duplex'', Method = [''gossip'', ''ping''], Args = Some [],
             Stream = \<lparr>src = 0, sreq = - 2, inStream = True, outStream = True, stipe = None\<rparr>,
             req_in = 0, req_tipe = None,
             req_pkt = Some \<lparr>Flag = {FlagJSON, FlagStream}, Req = - 2, Body = body_duplex\<rparr>\<rparr>"
  have no_json: "\<not> Flag_Get {FlagStream} {FlagJSON}"
    and json: "Flag_Get {FlagJSON, FlagStream} {FlagJSON}"
    and stream: "Flag_Get {FlagJSON, FlagStream} {FlagStream}"
    by (simp_all add: Flag_Get_def)
  have async: "json_Unmarshal_Request env0 body_async =
                 Inr \<lparr>eType = ''async'', eMethod = [''whoami''], eArgs = Some []\<rparr>"
    by (simp add: env0_def body_async_def body_source_def body_duplex_def)
  have parsed:
    "fst (ParseRequest env0 \<lparr>Flag = {FlagJSON, FlagStream}, Req = - 2, Body = body_duplex\<rparr> rpc0)
       = Inr ?q"
    by (simp add: ParseRequest_def env0_def rpc0_def Flag_Get_def NewPipe_def NewStream_def
          body_duplex_def body_source_def)
  have "\<exists>e. ParseRequest env0 \<lparr>Flag = {FlagStream}, Req = - 2, Body = body_duplex\<rparr> rpc0 =
          (Inl e, rpc0)"
    using ParseRequest_directions
            [of "\<lparr>Flag = {FlagStream}, Req = - 2, Body = body_duplex\<rparr>" env0 rpc0] no_json
    by simp
  moreover have
    "\<exists>e. ParseRequest env0 \<lparr>Flag = {FlagJSON, FlagStream}, Req = 2, Body = body_duplex\<rparr> rpc0 =
          (Inl e, rpc0)"
    using ParseRequest_directions
            [of "\<lparr>Flag = {FlagJSON, FlagStream}, Req = 2, Body = body_duplex\<rparr>" env0 rpc0]
    by simp
  moreover have
    "json_Unmarshal_Request env0 body_duplex =
       Inr \<lparr>eType = ''duplex'', eMethod = [''gossip'', ''ping''], eArgs = Some []\<rparr>"
    using ParseRequest_directions
            [of "\<lparr>Flag = {FlagJSON, FlagStream}, Req = - 2, Body = body_duplex\<rparr>" env0 rpc0 ?q]
          parsed
    by simp
  moreover have
    "fst (ParseRequest env0 \<lparr>Flag = {FlagJSON, FlagStream}, Req = - 2, Body = body_async\<rparr> rpc0) =
       Inl (Errorf ''unhandled request type: %q'' [''async''])"
    using ParseRequest_directions
            [of "\<lparr>Flag = {FlagJSON, FlagStream}, Req = - 2, Body = body_async\<rparr>" env0 rpc0 _
                "\<lparr>eType = ''async'', eMethod = [''whoami''], eArgs = Some []\<rparr>"]
          json stream async
    by simp
  ultimately show ?thesis
    using parsed by simp
qed

section \<open>Properties of outbound calls\<close>

text \<open>
  C3, as the claim states it, fails where the \<open>int32\<close> counter wraps: from a counter of
  \<open>2^31 - 2\<close> two calls are given the ids \<open>2^31 - 1\<close> and then \<open>- 2^31\<close>, which is the
  smaller one.
\<close>

theorem Do_ids_increase_counterexample:
  "fst (run env0 [CallDo req0, CallDo req0] True (rpc0\<lparr>highest := 0x7FFFFFFE\<rparr>))
     = [0x7FFFFFFF, 0x80000000]
   \<and> sint (0x80000000 :: int32) < sint (0x7FFFFFFF :: int32)"
  by (simp add: Do_def Do_locked_def perform_def env0_def rpc0_def req0_def Let_def)

text \<open>
  C3, amended. While the counter does not pass \<open>2^31 - 1\<close>, the ids the \<open>Do\<close> calls of a
  session are given, whatever the loop reads in between and whether or not the calls
  succeed, are the counter plus one, plus two and so on: strictly increasing and never
  the same twice. The closure that runs under the table lock both stores the new id as
  the highest and registers the request under it, with the id bound onto its stream.
\<close>

theorem Do_ids_increase:
  assumes "sint (highest r) + int (count_Do evs) < 2 ^ 31"
  shows "fst (run x evs s r) = map (\<lambda>k. highest r + 1 + of_nat k) [0..<count_Do evs]
       \<and> sorted_wrt (\<lambda>a b. sint a < sint b) (fst (run x evs s r))
       \<and> distinct (fst (run x evs s r))
       \<and> highest (snd (Do_locked x req r)) = highest r + 1
       \<and> (\<exists>q. reqs (snd (Do_locked x req r)) (highest r + 1) = Some q
               \<and> sreq (Stream q) = highest r + 1)"
proof -
  have ids: "fst (run x evs s r) = map (\<lambda>k. highest r + 1 + of_nat k) [0..<count_Do evs]"
    by (rule run_ids)
  have inc: "sorted_wrt (\<lambda>a b. sint a < sint b) (fst (run x evs s r))"
    unfolding ids using assms by (rule ids_strictly_increasing)
  have "distinct (fst (run x evs s r))"
    using inc by (rule increasing_distinct)
  moreover have "highest (snd (Do_locked x req r)) = highest r + 1"
    by (simp add: Do_locked_def Let_def)
  moreover have "\<exists>q. reqs (snd (Do_locked x req r)) (highest r + 1) = Some q
                    \<and> sreq (Stream q) = highest r + 1"
    by (simp add: Do_locked_def Let_def WithReq_def WithType_def)
  ultimately show ?thesis
    using ids inc by simp
qed

theorem Do_ids_increase_witness:
  "sint (highest rpc0) + int (count_Do [CallDo req0, Inbound (Inr pkt_data), CallDo req0]) < 2 ^ 31
   \<and> fst (run env0 [CallDo req0, Inbound (Inr pkt_data), CallDo req0] True rpc0) = [1, 2]
   \<and> sint (1 :: int32) < sint (2 :: int32)"
  using Do_ids_increase
          [of rpc0 "[CallDo req0, Inbound (Inr pkt_data), CallDo req0]" env0 True req0]
  by (simp add: rpc0_def)

text \<open>
  C8. When the closure has left a packet and no marshalling error and the transport's
  \<open>Pour\<close> of that packet fails, \<open>Do\<close> returns the transport's error, and the session is
  left as the closure made it but for the attempted send: the counter stays raised and
  the request stays registered under the new id.
\<close>

theorem Do_send_failure_not_rolled_back:
  assumes "Do_locked x (if Args req = None then req\<lparr>Args := Some []\<rparr> else req) r
             = ((p, None), r1)"
    and "outcome x (trace r1) (PkrPour p) = Some e"
  shows "fst (Do x req r) = Some e
       \<and> Req p = highest r + 1
       \<and> highest (snd (Do x req r)) = highest r + 1
       \<and> reqs (snd (Do x req r)) = reqs r1
       \<and> (\<exists>q. reqs (snd (Do x req r)) (highest r + 1) = Some q
               \<and> sreq (Stream q) = highest r + 1 \<and> req_pkt q = Some p)
       \<and> trace (snd (Do x req r)) = trace r @ [PkrPour p]"
  using assms
  by (auto simp: Do_def Do_locked_def perform_def Let_def WithReq_def WithType_def
           split: sum.splits if_splits)

theorem Do_send_failure_not_rolled_back_witness:
  "fst (Do env_send_fails req0 rpc0) = Some (New ''broken pipe'')
   \<and> highest (snd (Do env_send_fails req0 rpc0)) = 1
   \<and> reqs (snd (Do env_send_fails req0 rpc0)) 1 = Some req1
   \<and> trace (snd (Do env_send_fails req0 rpc0)) = [PkrPour pkt1]"
  using Do_send_failure_not_rolled_back
          [of env_send_fails req0 rpc0 pkt1
              "\<lparr>reqs = [1 \<mapsto> req1], highest = 1, terminated = False, npipes = 0, trace = []\<rparr>"
              "New ''broken pipe''"]
  by (simp add: Do_locked_def env_send_fails_def env0_def rpc0_def req0_def req1_def pkt1_def
        NewStream_def WithReq_def WithType_def Flag_Set_def Let_def insert_commute)

text \<open>
  C10. When marshalling the request fails, \<open>Do\<close> returns the marshalling error, nothing
  is handed to the transport, and yet the session has changed: the counter is raised,
  and the request is registered under the new id with that id and its result type bound
  onto its stream.
\<close>

theorem Do_marshal_failure_mutates:
  assumes "json_Marshal x (if Args req = None then req\<lparr>Args := Some []\<rparr> else req) = Inl e"
  shows "fst (Do x req r) = Some e
       \<and> highest (snd (Do x req r)) = highest r + 1
       \<and> (\<exists>q. reqs (snd (Do x req r)) (highest r + 1) = Some q
               \<and> Type q = Type req \<and> Method q = Method req \<and> req_in q = req_in req
               \<and> sreq (Stream q) = highest r + 1 \<and> stipe (Stream q) = req_tipe req)
       \<and> trace (snd (Do x req r)) = trace r"
  using assms
  by (auto simp: Do_def Do_locked_def perform_def Let_def WithReq_def WithType_def
           split: sum.splits if_splits)

theorem Do_marshal_failure_mutates_witness:
  "json_Marshal env_marshal_fails (if Args req0 = None then req0\<lparr>Args := Some []\<rparr> else req0)
     = Inl (New ''json: unsupported type'')
   \<and> fst (Do env_marshal_fails req0 rpc0) = Some (New ''json: unsupported type'')
   \<and> highest rpc0 = 0
   \<and> highest (snd (Do env_marshal_fails req0 rpc0)) = 1
   \<and> reqs rpc0 1 = None
   \<and> (\<exists>q. reqs (snd (Do env_marshal_fails req0 rpc0)) 1 = Some q
           \<and> Method q = [''blobs'', ''get''] \<and> sreq (Stream q) = 1)
   \<and> trace rpc0 = []
   \<and> trace (snd (Do env_marshal_fails req0 rpc0)) = []"
proof -
  have h: "json_Marshal env_marshal_fails
             (if Args req0 = None then req0\<lparr>Args := Some []\<rparr> else req0)
           = Inl (New ''json: unsupported type'')"
    by (simp add: env_marshal_fails_def)
  show ?thesis
    using Do_marshal_failure_mutates [OF h, of rpc0] h
    by (auto simp add: rpc0_def req0_def)
qed

section \<open>Properties of the dispatch loop\<close>

text \<open>
  C1, as the claim states it, fails: a termination packet for an id the table does not
  hold is not skipped. In a fresh session the late termination of a call of one's own
  (id 1, body \<open>true\<close>) makes \<open>Serve\<close> return an error, where without the packet the loop
  would still be running; and a termination packet that parses as a request changes the
  table.
\<close>

theorem Serve_endErr_unknown_id_counterexample:
  "Flag_Get (Flag pkt_end) {FlagEndErr} \<and> reqs rpc0 (Req pkt_end) = None
   \<and> Serve env0 [Inr pkt_end, Inr pkt_data] rpc0 =
       (Returned (Some (Wrapped (Wrapped (New ''expected negative request id'')
                                   ''error parsing request'') ''error getting request'')),
        rpc0)
   \<and> fst (Serve env0 [] rpc0) = Running
   \<and> reqs (snd (Serve env0
                  [Inr \<lparr>Flag = {FlagJSON, FlagStream, FlagEndErr}, Req = - 1, Body = body_source\<rparr>]
                  rpc0)) (- 1) \<noteq> None"
  by (simp add: Serve_step_def fetchRequest_def ParseRequest_def NewPipe_def NewStream_def
        Flag_Get_def pkt_end_def rpc0_def env0_def body_source_def)

text \<open>
  C1, amended. For a packet flagged EndErr whose id is not in the table, \<open>Serve\<close> runs no
  termination handling and treats the packet as the first packet of a new call: when
  \<open>ParseRequest\<close> rejects it, \<open>Serve\<close> returns that error, annotated twice, and the loop
  ends; otherwise the parsed request is registered under the id, a handler task is
  started for it, and the loop continues with the next packet.
\<close>

theorem Serve_endErr_unknown_id:
  assumes "Flag_Get (Flag p) {FlagEndErr}" and "reqs r (Req p) = None"
  shows "Serve x (Inr p # rds) r =
          (case ParseRequest x p r of
             (Inl e, r1) \<Rightarrow>
               (Returned (Some (Wrapped (Wrapped e ''error parsing request'')
                                  ''error getting request'')), r1)
           | (Inr req, r1) \<Rightarrow>
               Serve x rds (r1\<lparr>reqs := (reqs r1)(Req p \<mapsto> req),
                               trace := trace r1 @ [GoHandleCall req]\<rparr>))"
  using assms
  by (simp add: Serve_step_def fetchRequest_def split: prod.splits sum.splits)

theorem Serve_endErr_unknown_id_witness:
  "Flag_Get (Flag (pkt_end_error\<lparr>Req := 7\<rparr>)) {FlagEndErr}
   \<and> reqs rpc1 (Req (pkt_end_error\<lparr>Req := 7\<rparr>)) = None
   \<and> fst (Serve env0 [Inr (pkt_end_error\<lparr>Req := 7\<rparr>), Inr pkt_data] rpc1) =
       Returned (Some (Wrapped (Wrapped (New ''expected negative request id'')
                                  ''error parsing request'') ''error getting request''))"
  using Serve_endErr_unknown_id [of "pkt_end_error\<lparr>Req := 7\<rparr>" rpc1 env0 "[Inr pkt_data]"]
  by (simp add: rpc1_eq pkt_end_error_def Flag_Get_def ParseRequest_def)

text \<open>
  C2. For a packet flagged EndErr whose id is registered: when the body is exactly
  \<open>true\<close>, the request's pipe is closed and then its stream, and when both succeed the id
  is removed and the loop goes on; for any other body the body is parsed as a
  \<open>CallError\<close> and the pipe is closed with that error, and when that succeeds the id is
  removed and the loop goes on. When one of the steps fails (closing the pipe, closing
  the stream, parsing the error, closing with the error), \<open>Serve\<close> returns that error,
  annotated, whatever packets would follow; the id is then still registered.
\<close>

theorem Serve_endErr_known_id:
  assumes "Flag_Get (Flag p) {FlagEndErr}" and "reqs r (Req p) = Some req"
  shows
   "(Body p = ''true''
       \<and> outcome x (trace r) (SinkClose (req_in req)) = None
       \<and> outcome x (trace r @ [SinkClose (req_in req)]) (StreamClose (Stream req)) = None \<longrightarrow>
       Serve x (Inr p # rds) r =
         Serve x rds (r\<lparr>trace := trace r @ [SinkClose (req_in req), StreamClose (Stream req)],
                        reqs := (reqs r)(Req p := None)\<rparr>))
    \<and> (Body p = ''true'' \<and> outcome x (trace r) (SinkClose (req_in req)) = Some e \<longrightarrow>
       Serve x (Inr p # rds) r =
         (Returned (Some (Wrapped e ''error closing pipe sink'')),
          r\<lparr>trace := trace r @ [SinkClose (req_in req)]\<rparr>))
    \<and> (Body p = ''true''
       \<and> outcome x (trace r) (SinkClose (req_in req)) = None
       \<and> outcome x (trace r @ [SinkClose (req_in req)]) (StreamClose (Stream req)) = Some e \<longrightarrow>
       Serve x (Inr p # rds) r =
         (Returned (Some (Wrapped e ''error closing stream'')),
          r\<lparr>trace := trace r @ [SinkClose (req_in req), StreamClose (Stream req)]\<rparr>))
    \<and> (Body p \<noteq> ''true'' \<and> parseError x (Body p) = Inr ce
       \<and> outcome x (trace r) (SinkCloseWithError (req_in req) ce) = None \<longrightarrow>
       Serve x (Inr p # rds) r =
         Serve x rds (r\<lparr>trace := trace r @ [SinkCloseWithError (req_in req) ce],
                        reqs := (reqs r)(Req p := None)\<rparr>))
    \<and> (Body p \<noteq> ''true'' \<and> parseError x (Body p) = Inl e \<longrightarrow>
       Serve x (Inr p # rds) r =
         (Returned (Some (Wrapped e ''error parsing error packet'')), r))
    \<and> (Body p \<noteq> ''true'' \<and> parseError x (Body p) = Inr ce
       \<and> outcome x (trace r) (SinkCloseWithError (req_in req) ce) = Some e \<longrightarrow>
       Serve x (Inr p # rds) r =
         (Returned (Some (Wrapped e ''error closing pipe sink with error'')),
          r\<lparr>trace := trace r @ [SinkCloseWithError (req_in req) ce]\<rparr>))"
  using assms
  by (simp add: Serve_step_def Serve_endErr_def perform_def isTrue_iff)

theorem Serve_endErr_known_id_witness:
  "Flag_Get (Flag pkt_end) {FlagEndErr} \<and> reqs rpc1 (Req pkt_end) = Some req1
   \<and> fst (Serve env0 [Inr pkt_end] rpc1) = Running
   \<and> reqs (snd (Serve env0 [Inr pkt_end] rpc1)) 1 = None
   \<and> trace (snd (Serve env0 [Inr pkt_end] rpc1)) =
       [PkrPour pkt1, SinkClose 0, StreamClose (Stream req1)]
   \<and> fst (Serve env0 [Inr pkt_end_error] rpc1) = Running
   \<and> reqs (snd (Serve env0 [Inr pkt_end_error] rpc1)) 1 = None
   \<and> trace (snd (Serve env0 [Inr pkt_end_error] rpc1)) =
       [PkrPour pkt1,
        SinkCloseWithError 0 \<lparr>Name = ''Error'', Message = ''boom'', Stack = []\<rparr>]
   \<and> fst (Serve env_close_fails [Inr pkt_end, Inr pkt_data] rpc1) =
       Returned (Some (Wrapped (New ''broken pipe'') ''error closing stream''))
   \<and> reqs (snd (Serve env_close_fails [Inr pkt_end, Inr pkt_data] rpc1)) 1 = Some req1"
  using Serve_endErr_known_id
          [of pkt_end rpc1 req1 env0 "[]"]
        Serve_endErr_known_id
          [of pkt_end_error rpc1 req1 env0 "[]" _
              "\<lparr>Name = ''Error'', Message = ''boom'', Stack = []\<rparr>"]
        Serve_endErr_known_id
          [of pkt_end rpc1 req1 env_close_fails "[Inr pkt_data]" "New ''broken pipe''"]
  by (simp add: rpc1_eq pkt_end_def pkt_end_error_def Flag_Get_def parseError_def
        env_close_fails_def env0_def req1_def body_error_def)

text \<open>
  C7. For a packet not flagged EndErr whose id is registered, \<open>Serve\<close> pours the packet
  into the request's pipe under a context whose timeout is \<open>rxTimeout\<close>, one millisecond.
  When the pipe reports that the pour did not complete (any error, the missed deadline
  among them), \<open>Serve\<close> returns that error, annotated and so not nil, whatever packets
  would follow; when the pour completes the loop goes on.
\<close>

theorem Serve_delivery_timeout:
  assumes "\<not> Flag_Get (Flag p) {FlagEndErr}" and "reqs r (Req p) = Some req"
  shows
   "rxTimeout = Millisecond \<and> Millisecond = 1000000
    \<and> (outcome x (trace r) (SinkPour (req_in req) rxTimeout p) = Some e \<longrightarrow>
         Serve x (Inr p # rds) r =
           (Returned (Some (Wrapped e ''error pouring data to handler'')),
            r\<lparr>trace := trace r @ [SinkPour (req_in req) rxTimeout p]\<rparr>))
    \<and> (outcome x (trace r) (SinkPour (req_in req) rxTimeout p) = None \<longrightarrow>
         Serve x (Inr p # rds) r =
           Serve x rds (r\<lparr>trace := trace r @ [SinkPour (req_in req) rxTimeout p]\<rparr>))"
  using assms
  by (simp add: Serve_step_def fetchRequest_def perform_def Wrap_def rxTimeout_def
        Millisecond_def)

theorem Serve_delivery_timeout_witness:
  "\<not> Flag_Get (Flag pkt_data) {FlagEndErr} \<and> reqs rpc_full (Req pkt_data) = Some req1
   \<and> outcome env_stalled (trace rpc_full) (SinkPour (req_in req1) rxTimeout pkt_data) =
       Some DeadlineExceeded
   \<and> fst (Serve env_stalled [Inr pkt_data, Inr pkt_data] rpc_full) =
       Returned (Some (Wrapped DeadlineExceeded ''error pouring data to handler''))
   \<and> fst (Serve env_stalled [Inr pkt_data] rpc1) = Running"
  using Serve_delivery_timeout
          [of pkt_data rpc_full req1 env_stalled DeadlineExceeded "[Inr pkt_data]"]
        Serve_delivery_timeout
          [of pkt_data rpc1 req1 env_stalled DeadlineExceeded "[]"]
  by (simp add: rpc_full_eq rpc1_eq pkt_data_def Flag_Get_def env_stalled_def env0_def
        req1_def bufSize_def)

end
